theory Spec2Isabelle
  imports Complex_Main "HOL-Library.Extended_Nat" "HOL-Library.AList"
begin

section \<open>Filter pipeline: \<open>PoolFilters\<close> (filters/pool-filters.ts)\<close>

text \<open>
  \<open>FilterResult\<close> is the interface of the source. A \<open>Filter\<close> talks to the network, so
  its answer for the same pool may change from one round to the next: the model gives a
  filter the number of the round (\<open>attempt\<close>, counted from 0) in which it is called.
  Every filter of the repository catches its own exceptions and answers \<open>ok = False\<close>,
  so a filter call has no exceptional outcome.
\<close>

record FilterResult =
  ok :: bool
  message :: "string option"

type_synonym Filter = "nat \<Rightarrow> FilterResult"

text \<open>
  The three repeat constants of utils/constants.ts, read from the environment with
  \<open>Number(value)\<close>; count and milliseconds are modelled as naturals.
\<close>

record repeat_constants =
  FILTER_REPEAT_COUNT :: nat
  FILTER_REPEAT_INTERVAL :: nat
  FILTER_REPEAT_TIMEOUT :: nat

text \<open>
  The constructor pushes the route gate when enabled, always the on-chain filter, and
  the DexScreener filter when enabled.
\<close>

definition PoolFilters_filters :: "bool \<Rightarrow> bool \<Rightarrow> Filter \<Rightarrow> Filter \<Rightarrow> Filter \<Rightarrow> Filter list" where
  "PoolFilters_filters ENABLE_ROUTE_GATE ENABLE_DEXSCREENER_FILTER routeGate onChain dexScreener =
     (if ENABLE_ROUTE_GATE then [routeGate] else []) @ [onChain] @
     (if ENABLE_DEXSCREENER_FILTER then [dexScreener] else [])"

text \<open>
  The inner \<open>for (const filter of this.filters)\<close> of one round: filters run in order and
  the first one that is not ok ends the round with \<open>allPassed = false\<close>.
\<close>

fun allPassed :: "Filter list \<Rightarrow> nat \<Rightarrow> bool" where
  "allPassed [] attempt = True"
| "allPassed (f # fs) attempt = (if \<not> ok (f attempt) then False else allPassed fs attempt)"

text \<open>
  \<open>Math.ceil(FILTER_REPEAT_TIMEOUT / FILTER_REPEAT_INTERVAL)\<close>. With an interval of 0
  JavaScript divides to \<open>Infinity\<close> (the loop has no bound) or, for 0 / 0, to \<open>NaN\<close>
  (\<open>attempt < NaN\<close> is false, the loop body never runs, as with a bound of 0).
\<close>

definition maxAttempts :: "repeat_constants \<Rightarrow> enat" where
  "maxAttempts c =
     (if FILTER_REPEAT_INTERVAL c = 0
      then (if FILTER_REPEAT_TIMEOUT c = 0 then 0 else \<infinity>)
      else enat ((FILTER_REPEAT_TIMEOUT c + FILTER_REPEAT_INTERVAL c - 1) div FILTER_REPEAT_INTERVAL c))"

text \<open>
  The \<open>for (let attempt = 0; attempt < maxAttempts; attempt++)\<close> loop of \<open>execute\<close>, from
  the state \<open>(attempt, consecutiveMatches)\<close>. The result is the returned boolean and the
  number of rounds that were run. With an infinite bound the loop may never return:
  that is the value \<open>None\<close>. The \<open>sleep\<close> between rounds changes no state.
\<close>

partial_function (option) repeatLoop ::
  "Filter list \<Rightarrow> nat \<Rightarrow> enat \<Rightarrow> nat \<Rightarrow> nat \<Rightarrow> (bool \<times> nat) option" where
  "repeatLoop fs required bound attempt consecutiveMatches =
     (if enat attempt < bound then
        (if allPassed fs attempt then
           (if required \<le> Suc consecutiveMatches then Some (True, Suc attempt)
            else repeatLoop fs required bound (Suc attempt) (Suc consecutiveMatches))
         else repeatLoop fs required bound (Suc attempt) 0)
      else Some (False, attempt))"

definition execute :: "repeat_constants \<Rightarrow> Filter list \<Rightarrow> (bool \<times> nat) option" where
  "execute c fs =
     (if length fs = 0 then Some (True, 0)
      else repeatLoop fs (FILTER_REPEAT_COUNT c) (maxAttempts c) 0 0)"


section \<open>JavaScript values used by the managers\<close>

text \<open>
  A \<open>Map<string, V>\<close> is an association list in insertion order with one entry per key:
  \<open>Map.set\<close> is \<open>AList.update\<close> (the value of a present key is replaced in place, a new
  key goes to the end), \<open>Map.delete\<close> is \<open>AList.delete\<close>, \<open>Map.get\<close> is \<open>map_of\<close>,
  \<open>Map.has\<close> asks whether \<open>map_of\<close> is defined, \<open>Map.size\<close> is \<open>length\<close>, and
  \<open>Array.from(map.entries())\<close> is the list itself.

  Prices and amounts are JavaScript numbers. They are modelled as reals (rounding of
  doubles is not modelled), except for the one quotient the source computes with a
  divisor that can be zero, the PnL percentage: a division by \<open>+0\<close> gives \<open>Infinity\<close>,
  \<open>-Infinity\<close> or \<open>NaN\<close>, and every comparison with \<open>NaN\<close> is false.
\<close>

datatype jsnum = Num real | PosInfinity | NegInfinity | NaN

definition js_divide :: "real \<Rightarrow> real \<Rightarrow> jsnum" where
  "js_divide x y =
     (if y \<noteq> 0 then Num (x / y)
      else if 0 < x then PosInfinity
      else if x < 0 then NegInfinity
      else NaN)"

fun js_times100 :: "jsnum \<Rightarrow> jsnum" where
  "js_times100 (Num x) = Num (x * 100)"
| "js_times100 PosInfinity = PosInfinity"
| "js_times100 NegInfinity = NegInfinity"
| "js_times100 NaN = NaN"

fun js_ge :: "jsnum \<Rightarrow> real \<Rightarrow> bool" where
  "js_ge (Num x) t = (t \<le> x)"
| "js_ge PosInfinity t = True"
| "js_ge NegInfinity t = False"
| "js_ge NaN t = False"

fun js_le :: "jsnum \<Rightarrow> real \<Rightarrow> bool" where
  "js_le (Num x) t = (x \<le> t)"
| "js_le PosInfinity t = False"
| "js_le NegInfinity t = True"
| "js_le NaN t = False"

section \<open>Position store: \<open>PositionManager\<close> (managers/position-manager.ts)\<close>

datatype status = Active | Sold | Failed

datatype sell_reason = Take_profit | Stop_loss | Ttl | Manual

text \<open>
  The interface \<open>Position\<close>. \<open>buyAmount\<close> is a \<open>TokenAmount\<close>; the source only ever reads
  it as the number \<open>parseFloat(buyAmount.toExact())\<close>, which is what the field holds here.
  Optional fields are options, timestamps are the milliseconds of \<open>Date.now()\<close>.
\<close>

record Position =
  mint :: string
  symbol :: string
  buyPrice :: real
  buyAmount :: real
  buyTimestamp :: int
  buySignature :: string
  currentPrice :: "real option"
  currentValue :: "real option"
  pnl :: "real option"
  pnlPercent :: "jsnum option"
  status :: status
  sellReason :: "sell_reason option"
  sellSignature :: "string option"
  sellTimestamp :: "int option"

type_synonym positions = "(string \<times> Position) list"

definition maxPositions :: nat where
  "maxPositions = 50"

definition hasPosition :: "string \<Rightarrow> positions \<Rightarrow> bool" where
  "hasPosition m ps = (map_of ps m \<noteq> None)"

definition getPosition :: "string \<Rightarrow> positions \<Rightarrow> Position option" where
  "getPosition m ps = map_of ps m"

text \<open>
  \<open>cleanupOldPositions\<close>: the entries are sorted by \<open>buyTimestamp\<close> ascending
  (\<open>Array.prototype.sort\<close> is stable, as is \<open>sort_key\<close>), the entries that are not
  active are kept, the first ten of them are deleted from the map.
\<close>

definition cleanupOldPositions :: "positions \<Rightarrow> positions" where
  "cleanupOldPositions ps =
     (let sortedPositions = sort_key (\<lambda>e. buyTimestamp (snd e)) ps;
          toRemove = take 10 (filter (\<lambda>e. status (snd e) \<noteq> Active) sortedPositions)
      in fold (\<lambda>e acc. AList.delete (fst e) acc) toRemove ps)"

text \<open>
  \<open>addPosition(mint, symbol, buyPrice, buyAmount, buySignature)\<close>; the first argument
  of the model is the value of \<open>Date.now()\<close>. \<open>newPosition\<close> is the object literal the
  function builds. It is stored with \<open>this.positions.set\<close> whether or not the key is
  present.
\<close>

definition newPosition :: "int \<Rightarrow> string \<Rightarrow> string \<Rightarrow> real \<Rightarrow> real \<Rightarrow> string \<Rightarrow> Position" where
  "newPosition now m symb price amount signature =
     \<lparr>mint = m, symbol = symb, buyPrice = price, buyAmount = amount,
      buyTimestamp = now, buySignature = signature,
      currentPrice = None, currentValue = None, pnl = None,
      pnlPercent = None, status = Active, sellReason = None,
      sellSignature = None, sellTimestamp = None\<rparr>"

definition addPosition ::
  "int \<Rightarrow> string \<Rightarrow> string \<Rightarrow> real \<Rightarrow> real \<Rightarrow> string \<Rightarrow> positions \<Rightarrow> positions" where
  "addPosition now m symb price amount signature ps =
     (let position = newPosition now m symb price amount signature;
          ps' = AList.update m position ps
      in if length ps' > maxPositions then cleanupOldPositions ps' else ps')"

definition updatePosition :: "string \<Rightarrow> real \<Rightarrow> real \<Rightarrow> positions \<Rightarrow> positions" where
  "updatePosition m price val ps =
     (case map_of ps m of
        None \<Rightarrow> ps
      | Some position \<Rightarrow>
          (let buyValue = buyPrice position * buyAmount position
           in AList.update m
                (position\<lparr>currentPrice := Some price, currentValue := Some val,
                          pnl := Some (val - buyValue),
                          pnlPercent := Some (js_times100 (js_divide (val - buyValue) buyValue))\<rparr>)
                ps))"

text \<open>
  \<open>closePosition(mint, sellReason, sellSignature?)\<close>; the last argument but one of the
  model is the value of \<open>Date.now()\<close>. The only guard is \<open>if (!position) return\<close>.
\<close>

definition closePosition ::
  "string \<Rightarrow> sell_reason \<Rightarrow> string option \<Rightarrow> int \<Rightarrow> positions \<Rightarrow> positions" where
  "closePosition m reason signature now ps =
     (case map_of ps m of
        None \<Rightarrow> ps
      | Some position \<Rightarrow>
          AList.update m
            (position\<lparr>status := Sold, sellReason := Some reason,
                      sellSignature := signature, sellTimestamp := Some now\<rparr>)
            ps)"

section \<open>Shared state of the bot\<close>

text \<open>
  The \<open>Bot\<close> owns one \<open>PositionManager\<close>, one \<open>SellManager\<close>, one \<open>Statistics\<close>, the
  mutex and the counter \<open>sellExecutionCount\<close>; they are the fields of one state record.
  \<open>executorCalls\<close> is not a field of the source: it counts the calls of
  \<open>txExecutor.executeAndConfirm\<close> made so far, so that a theorem can say that a path
  does or does not reach the transaction executor.

  A \<open>SellCondition\<close> keeps a reference to the \<open>Position\<close> object. The sell manager
  reads only \<open>buyPrice\<close>, \<open>buyAmount\<close> and \<open>symbol\<close> through it, which are never
  assigned after the position is created, so the model keeps a copy. \<open>poolKeys\<close> is only
  passed to the token-account lookup, whose result is an input of the model.
\<close>

record SellCondition =
  cond_mint :: string
  cond_position :: Position
  checkStartTime :: int

record bot_state =
  positions :: positions
  sellConditions :: "(string \<times> SellCondition) list"
  isRunning :: bool
  mutexLocked :: bool
  sellExecutionCount :: int
  executorCalls :: nat
  tokensDetected :: nat
  tokensFiltered :: nat
  tokensBought :: nat
  tokensSold :: nat
  totalVolume :: real

section \<open>Sell conditions: \<open>SellManager\<close> (managers/sell-manager.ts)\<close>

record sell_constants =
  TAKE_PROFIT :: real
  STOP_LOSS :: real
  TTL_MINUTES :: real

text \<open>
  What the outside world answers during one evaluation of one watched entry:
  \<open>Date.now()\<close> at the start of \<open>checkSellCondition\<close>; the result of
  \<open>getCurrentPrice\<close>, a number or \<open>null\<close> (the function catches every error of the
  quote request and returns \<open>null\<close>); the result of the token-account lookup of
  \<open>executeSell\<close> (\<open>getAssociatedTokenAddress\<close>, \<open>getAccount\<close> and the construction
  of the \<open>TokenAmount\<close>), which throws or gives the raw balance; \<open>Date.now()\<close> inside
  \<open>closePosition\<close>.
\<close>

datatype account_lookup = Lookup_threw | Token_balance nat

record check_input =
  currentTime :: int
  fetchedPrice :: "real option"
  accountLookup :: account_lookup
  closeTime :: int

text \<open>
  \<open>addSellCondition\<close>; the first argument is the value of \<open>Date.now()\<close>. When the
  monitor is not running, \<open>startMonitoring\<close> sets \<open>isRunning\<close> and the loop goes on as
  a task of its own, modelled by \<open>monitorCycle\<close> below.
\<close>

definition addSellCondition :: "int \<Rightarrow> string \<Rightarrow> Position \<Rightarrow> bot_state \<Rightarrow> bot_state" where
  "addSellCondition now m position s =
     s\<lparr>sellConditions :=
          AList.update m \<lparr>cond_mint = m, cond_position = position, checkStartTime = now\<rparr>
            (sellConditions s),
       isRunning := True\<rparr>"

definition removeSellCondition :: "string \<Rightarrow> bot_state \<Rightarrow> bot_state" where
  "removeSellCondition m s = s\<lparr>sellConditions := AList.delete m (sellConditions s)\<rparr>"

text \<open>
  \<open>executeSell\<close>. The wait of \<open>AUTO_SELL_DELAY\<close> changes no state. An exception of the
  lookup is caught by the \<open>catch\<close> of the function, which only logs. With a zero
  balance the condition is removed. Otherwise the source logs \<open>SELL_EXECUTED\<close>, closes
  the position with the fixed signature and removes the condition; it makes no call
  to the transaction executor (the field \<open>txExecutor\<close> is never used in the class).
\<close>

definition executeSell ::
  "account_lookup \<Rightarrow> int \<Rightarrow> SellCondition \<Rightarrow> sell_reason \<Rightarrow> bot_state \<Rightarrow> bot_state" where
  "executeSell lookup now condition reason s =
     (case lookup of
        Lookup_threw \<Rightarrow> s
      | Token_balance balance \<Rightarrow>
          if balance = 0 then removeSellCondition (cond_mint condition) s
          else removeSellCondition (cond_mint condition)
                 (s\<lparr>positions :=
                      closePosition (cond_mint condition) reason
                        (Some ''simulated_sell_signature'') now (positions s)\<rparr>))"

text \<open>
  \<open>checkSellCondition\<close>. The first component of the result is the reason handed to
  \<open>executeSell\<close>, \<open>None\<close> when the function returns without calling it. The test
  \<open>!currentPrice\<close> holds for \<open>null\<close> and for the number 0.
\<close>

definition elapsedMinutes :: "check_input \<Rightarrow> SellCondition \<Rightarrow> real" where
  "elapsedMinutes inp condition =
     real_of_int (currentTime inp - checkStartTime condition) / (1000 * 60)"

definition checkSellCondition ::
  "sell_constants \<Rightarrow> check_input \<Rightarrow> SellCondition \<Rightarrow> bot_state \<Rightarrow> sell_reason option \<times> bot_state" where
  "checkSellCondition k inp condition s =
     (if TTL_MINUTES k \<le> elapsedMinutes inp condition
      then (Some Ttl, executeSell (accountLookup inp) (closeTime inp) condition Ttl s)
      else
        (case fetchedPrice inp of
           None \<Rightarrow> (None, s)
         | Some price \<Rightarrow>
             if price = 0 then (None, s)
             else
               (let position = cond_position condition;
                    buyValue = buyPrice position * buyAmount position;
                    currentVal = price * buyAmount position;
                    percent = js_times100 (js_divide (currentVal - buyValue) buyValue);
                    s1 = s\<lparr>positions :=
                             updatePosition (cond_mint condition) price currentVal (positions s)\<rparr>
                in if js_ge percent (TAKE_PROFIT k)
                   then (Some Take_profit,
                         executeSell (accountLookup inp) (closeTime inp) condition Take_profit s1)
                   else if js_le percent (- STOP_LOSS k)
                   then (Some Stop_loss,
                         executeSell (accountLookup inp) (closeTime inp) condition Stop_loss s1)
                   else (None, s1))))"




section \<open>Pool size check: \<open>OnChainFilter.checkPoolSize\<close> (filters/on-chain.filter.ts)\<close>

text \<open>
  The two operands of each comparison in \<open>checkPoolSize\<close> are strings,
  \<open>poolSize.toExact()\<close> and \<open>minSize.toString()\<close>, and \<open><\<close> on two strings in
  JavaScript compares them code unit by code unit, a proper prefix being smaller.
\<close>

fun js_string_less :: "string \<Rightarrow> string \<Rightarrow> bool" where
  "js_string_less [] [] = False"
| "js_string_less [] (y # ys) = True"
| "js_string_less (x # xs) [] = False"
| "js_string_less (x # xs) (y # ys) =
     (if (of_char x :: nat) < of_char y then True
      else if (of_char y :: nat) < of_char x then False
      else js_string_less xs ys)"

text \<open>\<open>Number.prototype.toString\<close> on a natural number: its decimal digits.\<close>

definition digit_char :: "nat \<Rightarrow> char" where
  "digit_char d = ''0123456789'' ! d"

function toString_nat :: "nat \<Rightarrow> string" where
  "toString_nat n =
     (if n < 10 then [digit_char n] else toString_nat (n div 10) @ [digit_char (n mod 10)])"
  by pat_completeness auto
termination
  by (relation "measure (\<lambda>n. n)") auto

text \<open>
  \<open>new TokenAmount(quoteToken, amount, true).toExact()\<close> of the SDK: the raw amount
  divided by \<open>10 ^ decimals\<close>, written in decimal without trailing zeros. The pool
  sizes of the model are whole numbers of quote tokens or have a fractional part.
\<close>

fun strip_trailing_zeros :: "string \<Rightarrow> string" where
  "strip_trailing_zeros xs = rev (dropWhile (\<lambda>ch. ch = CHR ''0'') (rev xs))"

definition toExact :: "nat \<Rightarrow> nat \<Rightarrow> string" where
  "toExact decimals raw =
     (let whole = raw div 10 ^ decimals; part = raw mod 10 ^ decimals
      in if part = 0 then toString_nat whole
         else toString_nat whole @ ''.'' @
              strip_trailing_zeros
                (replicate (decimals - length (toString_nat part)) CHR ''0'' @ toString_nat part))"

text \<open>
  \<open>checkPoolSize\<close>. \<open>minSize\<close> and \<open>maxSize\<close> are \<open>parseFloat(MIN_POOL_SIZE)\<close> and
  \<open>parseFloat(MAX_POOL_SIZE)\<close>, here whole numbers; the response of
  \<open>getTokenAccountBalance\<close> is the raw amount of the quote vault, or \<open>None\<close> when the
  request throws, which the \<open>catch\<close> turns into a failed check.
\<close>

definition checkPoolSize :: "nat \<Rightarrow> nat \<Rightarrow> nat \<Rightarrow> nat option \<Rightarrow> FilterResult" where
  "checkPoolSize minSize maxSize decimals response =
     (case response of
        None \<Rightarrow> \<lparr>ok = False, message = Some ''SKIP_POOL_SIZE -> Error checking pool size''\<rparr>
      | Some amount \<Rightarrow>
          (let poolSize = toExact decimals amount
           in if minSize > 0 \<and> js_string_less poolSize (toString_nat minSize)
              then \<lparr>ok = False, message = Some ''SKIP_POOL_SIZE -> Pool too small''\<rparr>
              else if maxSize > 0 \<and> js_string_less (toString_nat maxSize) poolSize
              then \<lparr>ok = False, message = Some ''SKIP_POOL_SIZE -> Pool too large''\<rparr>
              else \<lparr>ok = True, message = None\<rparr>))"

text \<open>
  The pool size as a number, for comparison with the bounds: the raw amount over
  \<open>10 ^ decimals\<close>.
\<close>

definition poolSizeNumber :: "nat \<Rightarrow> nat \<Rightarrow> real" where
  "poolSizeNumber decimals raw = real raw / 10 ^ decimals"

section \<open>Acquisition and liquidation: \<open>Bot\<close> (bot.ts)\<close>

text \<open>
  The fields of \<open>BotConfig\<close> and the constants of utils/constants.ts that \<open>buy\<close> and
  \<open>sell\<close> read. \<open>quoteAmount\<close> is read as the number
  \<open>parseFloat(quoteAmount.toExact())\<close>.
\<close>

record bot_config =
  oneTokenAtATime :: bool
  useSnipeList :: bool
  autoBuyDelay :: nat
  maxBuyRetries :: nat
  maxSellRetries :: nat
  quoteAmount :: real
  TEST_MODE :: bool
  MIN_SOL_BALANCE :: real
  repeatConstants :: repeat_constants

text \<open>
  One call of \<open>swap\<close>: an exception before the executor is reached (pool info, amount
  computation, blockhash), an exception of \<open>executeAndConfirm\<close>, a result that is not
  confirmed, or a confirmed result with its optional signature.
\<close>

datatype swap_outcome =
    Build_threw
  | Executor_threw
  | Not_confirmed
  | Confirmed "string option"

text \<open>
  What the outside world answers to one call of \<open>buy\<close>: the lamports of
  \<open>getBalance\<close> (\<open>None\<close> when the request throws; the call is outside the \<open>try\<close>, so
  \<open>buy\<close> rejects), whether the mint is in the snipe list, whether the market lookup
  and \<open>createPoolKeys\<close> succeed, the filters of the pipeline, the outcome of each swap
  attempt, the results of \<open>calculateBuyPrice\<close> and \<open>getTokenSymbol\<close> (both catch their
  errors and return a fallback), and \<open>Date.now()\<close> in \<open>addPosition\<close> and in
  \<open>addSellCondition\<close>.
\<close>

record buy_input =
  walletLamports :: "nat option"
  inSnipeList :: bool
  poolSetupOk :: bool
  poolFilters :: "Filter list"
  buySwapOutcome :: "nat \<Rightarrow> swap_outcome"
  calculatedBuyPrice :: real
  tokenSymbol :: string
  addTime :: int
  watchTime :: int

datatype buy_exit =
    Skip_duplicate
  | Balance_request_threw
  | Skip_insufficient_balance
  | Skip_snipe_list
  | Skip_busy
  | Buy_failed
  | Skip_filters
  | Buy_test
  | Buy_success
  | Buy_exhausted

text \<open>
  \<open>buy\<close> is an \<open>async\<close> function: it runs until the next \<open>await\<close>, and other tasks of
  the event loop run before it goes on. A control point of one call is the \<open>await\<close> it
  is suspended at; \<open>buy_step\<close> runs the code from one control point to the next.
  The swap attempt and the filter pipeline are one step each (they change no field of
  the state other than the executor count).
\<close>

datatype buy_pc =
    Buy_called
  | Await_getBalance
  | Await_autoBuyDelay
  | Await_acquire
  | Await_poolSetup
  | Await_errorAlert
  | Await_filterMatch
  | Await_swap nat
  | Await_calculateBuyPrice "string option"
  | Await_getTokenSymbol "string option"
  | Await_buyAlert
  | Returned buy_exit

text \<open>The \<open>finally\<close> block of \<open>buy\<close>, then the return.\<close>

definition buy_finally :: "bot_config \<Rightarrow> buy_exit \<Rightarrow> bot_state \<Rightarrow> buy_pc \<times> bot_state" where
  "buy_finally cfg exit s =
     (Returned exit, if oneTokenAtATime cfg then s\<lparr>mutexLocked := False\<rparr> else s)"

text \<open>
  The block \<open>if (this.config.oneTokenAtATime)\<close>: the test of the mutex and of the sell
  counter and the call of \<open>mutex.acquire()\<close> run without an \<open>await\<close> in between, and
  \<open>acquire\<close> on a free mutex of the library async-mutex takes it before it returns its
  promise. Without single-flight mode the call runs on into the \<open>try\<close> block, up to
  its first \<open>await\<close>.
\<close>

definition buy_gate :: "bot_config \<Rightarrow> bot_state \<Rightarrow> buy_pc \<times> bot_state" where
  "buy_gate cfg s =
     (if oneTokenAtATime cfg then
        (if mutexLocked s \<or> sellExecutionCount s > 0 then (Returned Skip_busy, s)
         else (Await_acquire, s\<lparr>mutexLocked := True\<rparr>))
      else (Await_poolSetup, s))"

text \<open>The head of the retry loop, \<open>i < this.config.maxBuyRetries\<close>.\<close>

definition buy_attempt :: "bot_config \<Rightarrow> nat \<Rightarrow> bot_state \<Rightarrow> buy_pc \<times> bot_state" where
  "buy_attempt cfg i s =
     (if i < maxBuyRetries cfg then (Await_swap i, s) else buy_finally cfg Buy_exhausted s)"

text \<open>After the filters: the test-mode branch, or the first swap attempt.\<close>

definition buy_after_filters :: "bot_config \<Rightarrow> buy_input \<Rightarrow> string \<Rightarrow> bot_state \<Rightarrow> buy_pc \<times> bot_state" where
  "buy_after_filters cfg inp m s =
     (if TEST_MODE cfg then
        buy_finally cfg Buy_test
          (s\<lparr>positions :=
               addPosition (addTime inp) m ''TEST'' 0.001 (quoteAmount cfg)
                 ''test_mode_signature'' (positions s),
             tokensBought := tokensBought s + 1,
             totalVolume := totalVolume s + quoteAmount cfg\<rparr>)
      else buy_attempt cfg 0 s)"

definition buy_step ::
  "bot_config \<Rightarrow> buy_input \<Rightarrow> string \<Rightarrow> buy_pc \<Rightarrow> bot_state \<Rightarrow> buy_pc \<times> bot_state" where
  "buy_step cfg inp m pc s =
     (case pc of
        Buy_called \<Rightarrow>
          (let s1 = s\<lparr>tokensDetected := tokensDetected s + 1\<rparr>
           in if hasPosition m (positions s1) then (Returned Skip_duplicate, s1)
              else (Await_getBalance, s1))
      | Await_getBalance \<Rightarrow>
          (case walletLamports inp of
             None \<Rightarrow> (Returned Balance_request_threw, s)
           | Some balance \<Rightarrow>
               if real balance / 1000000000 < MIN_SOL_BALANCE cfg
               then (Returned Skip_insufficient_balance, s)
               else if useSnipeList cfg \<and> \<not> inSnipeList inp
               then (Returned Skip_snipe_list, s)
               else if autoBuyDelay cfg > 0 then (Await_autoBuyDelay, s)
               else buy_gate cfg s)
      | Await_autoBuyDelay \<Rightarrow> buy_gate cfg s
      | Await_acquire \<Rightarrow> (Await_poolSetup, s)
      | Await_poolSetup \<Rightarrow>
          if \<not> poolSetupOk inp then (Await_errorAlert, s)
          else if \<not> useSnipeList cfg then (Await_filterMatch, s)
          else buy_after_filters cfg inp m s
      | Await_errorAlert \<Rightarrow> buy_finally cfg Buy_failed s
      | Await_filterMatch \<Rightarrow>
          (case execute (repeatConstants cfg) (poolFilters inp) of
             None \<Rightarrow> (Await_filterMatch, s)
           | Some (match, rounds) \<Rightarrow>
               if \<not> match
               then buy_finally cfg Skip_filters (s\<lparr>tokensFiltered := tokensFiltered s + 1\<rparr>)
               else buy_after_filters cfg inp m s)
      | Await_swap i \<Rightarrow>
          (case buySwapOutcome inp i of
             Build_threw \<Rightarrow> buy_attempt cfg (Suc i) s
           | Executor_threw \<Rightarrow>
               buy_attempt cfg (Suc i) (s\<lparr>executorCalls := executorCalls s + 1\<rparr>)
           | Not_confirmed \<Rightarrow>
               buy_attempt cfg (Suc i) (s\<lparr>executorCalls := executorCalls s + 1\<rparr>)
           | Confirmed signature \<Rightarrow>
               (Await_calculateBuyPrice signature, s\<lparr>executorCalls := executorCalls s + 1\<rparr>))
      | Await_calculateBuyPrice signature \<Rightarrow> (Await_getTokenSymbol signature, s)
      | Await_getTokenSymbol signature \<Rightarrow>
          (let s1 = s\<lparr>positions :=
                        addPosition (addTime inp) m (tokenSymbol inp) (calculatedBuyPrice inp)
                          (quoteAmount cfg)
                          (case signature of None \<Rightarrow> [] | Some sg \<Rightarrow> sg)
                          (positions s)\<rparr>;
               s2 = (case getPosition m (positions s1) of
                       None \<Rightarrow> s1
                     | Some position \<Rightarrow> addSellCondition (watchTime inp) m position s1)
           in (Await_buyAlert,
               s2\<lparr>tokensBought := tokensBought s2 + 1,
                  totalVolume := totalVolume s2 + quoteAmount cfg\<rparr>))
      | Await_buyAlert \<Rightarrow> buy_finally cfg Buy_success s
      | Returned exit \<Rightarrow> (Returned exit, s))"

text \<open>
  Several calls of \<open>buy\<close> in flight at once. Call number \<open>i\<close> is for the mint
  \<open>mints i\<close> and gets the answers \<open>inputs i\<close>; a configuration is the shared state and
  the control point of every call. The event loop picks any call and lets it run to
  its next \<open>await\<close> (a call that has returned stays as it is), or it runs another
  task (a sell, the monitor), which may change any field of the state except the
  mutex: the mutex is a private field of \<open>Bot\<close> that only \<open>buy\<close> uses.
\<close>

inductive buy_interleaving ::
  "bot_config \<Rightarrow> (nat \<Rightarrow> buy_input) \<Rightarrow> (nat \<Rightarrow> string) \<Rightarrow> bot_state \<Rightarrow>
   bot_state \<times> (nat \<Rightarrow> buy_pc) \<Rightarrow> bool"
  for cfg :: bot_config and inputs :: "nat \<Rightarrow> buy_input" and mints :: "nat \<Rightarrow> string"
    and s0 :: bot_state where
  start: "buy_interleaving cfg inputs mints s0 (s0, \<lambda>i. Buy_called)"
| step: "buy_interleaving cfg inputs mints s0 (s, pcs) \<Longrightarrow>
         buy_step cfg (inputs i) (mints i) (pcs i) s = (pc', s') \<Longrightarrow>
         buy_interleaving cfg inputs mints s0 (s', pcs(i := pc'))"
| other_task: "buy_interleaving cfg inputs mints s0 (s, pcs) \<Longrightarrow>
         mutexLocked s' = mutexLocked s \<Longrightarrow>
         buy_interleaving cfg inputs mints s0 (s', pcs)"






section \<open>Example data\<close>

text \<open>
  Concrete positions and stores on which the theorems below are instantiated:
  a position bought at price 1 for 100 tokens, and a store of fifty positions with
  keys \<open>0\<close> to \<open>49\<close> bought at times 0 to 49, of which the twelve oldest are sold.
\<close>

definition example_position :: "string \<Rightarrow> int \<Rightarrow> status \<Rightarrow> Position" where
  "example_position m t st =
     \<lparr>mint = m, symbol = ''TKN'', buyPrice = 1, buyAmount = 100,
      buyTimestamp = t, buySignature = ''buy_signature'',
      currentPrice = None, currentValue = None, pnl = None,
      pnlPercent = None, status = st, sellReason = None,
      sellSignature = None, sellTimestamp = None\<rparr>"

definition example_store :: positions where
  "example_store =
     map (\<lambda>i. (toString_nat i, example_position (toString_nat i) (int i)
                                   (if i < 12 then Sold else Active)))
       [0 ..< 50]"


definition example_condition :: SellCondition where
  "example_condition =
     \<lparr>cond_mint = ''A'', cond_position = example_position ''A'' 0 Active, checkStartTime = 0\<rparr>"

definition example_state :: bot_state where
  "example_state =
     \<lparr>positions = [(''A'', example_position ''A'' 0 Active)],
      sellConditions = [(''A'', example_condition)],
      isRunning = True, mutexLocked = False, sellExecutionCount = 0, executorCalls = 0,
      tokensDetected = 0, tokensFiltered = 0, tokensBought = 0, tokensSold = 0,
      totalVolume = 0\<rparr>"

definition example_config :: bot_config where
  "example_config =
     \<lparr>oneTokenAtATime = True, useSnipeList = False, autoBuyDelay = 1000,
      maxBuyRetries = 3, maxSellRetries = 3, quoteAmount = 0.01, TEST_MODE = False,
      MIN_SOL_BALANCE = 0.1,
      repeatConstants = \<lparr>FILTER_REPEAT_COUNT = 3, FILTER_REPEAT_INTERVAL = 5000,
                          FILTER_REPEAT_TIMEOUT = 30000\<rparr>\<rparr>"

definition example_buy_input :: buy_input where
  "example_buy_input =
     \<lparr>walletLamports = Some 1000000000, inSnipeList = False, poolSetupOk = True,
      poolFilters = [\<lambda>a. \<lparr>ok = True, message = None\<rparr>],
      buySwapOutcome = (\<lambda>i. Confirmed (Some ''buy_signature'')),
      calculatedBuyPrice = 1, tokenSymbol = ''TKN'', addTime = 0, watchTime = 0\<rparr>"



section \<open>Properties of the filter pipeline\<close>


text \<open>With a positive interval the bound is the ceiling of the quotient.\<close>

lemma maxAttempts_ceiling:
  "0 < FILTER_REPEAT_INTERVAL c \<Longrightarrow>
   maxAttempts c = enat (nat \<lceil>real (FILTER_REPEAT_TIMEOUT c) / real (FILTER_REPEAT_INTERVAL c)\<rceil>)"
proof -
  assume i: "0 < FILTER_REPEAT_INTERVAL c"
  define t where "t = FILTER_REPEAT_TIMEOUT c"
  define d where "d = FILTER_REPEAT_INTERVAL c"
  have d: "0 < d" using i by (simp add: d_def)
  define m where "m = (t + d - 1) div d"
  have "m * d \<le> t + d - 1" by (simp add: m_def)
  then have "m * d < t + d" using d by simp
  then have up: "real m * real d < real t + real d"
    by (metis of_nat_add of_nat_less_iff of_nat_mult)
  have "t + d - 1 < (m + 1) * d"
    using d dividend_less_div_times[of d "t + d - 1"] by (simp add: m_def)
  then have "t \<le> m * d" using d by simp
  then have lo: "real t \<le> real m * real d"
    by (metis of_nat_le_iff of_nat_mult)
  have "\<lceil>real t / real d\<rceil> = int m"
  proof (rule ceiling_unique)
    show "real_of_int (int m) - 1 < real t / real d"
      using up d by (simp add: field_simps)
    show "real t / real d \<le> real_of_int (int m)"
      using lo d by (simp add: field_simps)
  qed
  then have "\<lceil>real t / real d\<rceil> = int ((t + d - 1) div d)" by (simp add: m_def)
  then show ?thesis using i by (simp add: maxAttempts_def t_def d_def)
qed

lemma PoolFilters_filters_nonempty:
  "PoolFilters_filters g d routeGate onChain dexScreener \<noteq> []"
  by (simp add: PoolFilters_filters_def)



section \<open>Properties of the position store\<close>

text \<open>
  Facts about the map operations: a new key is appended, deleting keys one after the
  other filters them out, and the clean-up is a filter of the store.
\<close>

lemma update_fresh_append:
  "k \<notin> fst ` set al \<Longrightarrow> AList.update k v al = al @ [(k, v)]"
  by (induction al) auto

lemma fold_delete_filter:
  "fold (\<lambda>e acc. AList.delete (fst e) acc) rs xs = filter (\<lambda>e. fst e \<notin> fst ` set rs) xs"
proof (induction rs arbitrary: xs)
  case Nil
  then show ?case by simp
next
  case (Cons r rs)
  have "filter (\<lambda>e. fst e \<notin> fst ` set rs) (AList.delete (fst r) xs)
        = filter (\<lambda>e. fst e \<notin> fst ` set (r # rs)) xs"
    by (induction xs) (auto simp: AList.delete_eq)
  with Cons show ?case by simp
qed

lemma cleanupOldPositions_filter:
  "cleanupOldPositions ps =
     filter (\<lambda>e. fst e \<notin> fst ` set (take 10 (filter (\<lambda>e. status (snd e) \<noteq> Active)
                                   (sort_key (\<lambda>e. buyTimestamp (snd e)) ps)))) ps"
  by (simp add: cleanupOldPositions_def Let_def fold_delete_filter)

lemma cleanupOldPositions_subset: "set (cleanupOldPositions ps) \<subseteq> set ps"
  by (auto simp: cleanupOldPositions_filter)

lemma cleanupOldPositions_distinct:
  "distinct (map fst ps) \<Longrightarrow> distinct (map fst (cleanupOldPositions ps))"
  by (simp add: cleanupOldPositions_filter distinct_map_filter)

lemma cleanupOldPositions_keeps_active:
  assumes "e \<in> set ps" and "status (snd e) = Active" and "distinct (map fst ps)"
  shows "e \<in> set (cleanupOldPositions ps)"
proof -
  let ?rs = "take 10 (filter (\<lambda>e. status (snd e) \<noteq> Active)
               (sort_key (\<lambda>e. buyTimestamp (snd e)) ps))"
  have "fst e \<notin> fst ` set ?rs"
  proof
    assume "fst e \<in> fst ` set ?rs"
    then obtain r where r: "r \<in> set ?rs" "fst r = fst e" by auto
    from r(1) have "r \<in> set (filter (\<lambda>e. status (snd e) \<noteq> Active)
               (sort_key (\<lambda>e. buyTimestamp (snd e)) ps))" by (rule in_set_takeD)
    then have rin: "r \<in> set ps" and rst: "status (snd r) \<noteq> Active" by auto
    from assms(3) rin assms(1) r(2) have "r = e"
      by (metis eq_key_imp_eq_value prod.collapse)
    with rst assms(2) show False by simp
  qed
  with assms(1) show ?thesis by (simp add: cleanupOldPositions_filter)
qed

lemma map_of_cleanup_active:
  assumes "map_of ps m = Some p" and "status p = Active" and "distinct (map fst ps)"
  shows "map_of (cleanupOldPositions ps) m = Some p"
proof -
  have "(m, p) \<in> set ps" using assms(1) by (rule map_of_SomeD)
  then have "(m, p) \<in> set (cleanupOldPositions ps)"
    using assms(2,3) cleanupOldPositions_keeps_active[of "(m, p)" ps] by simp
  then show ?thesis
    using cleanupOldPositions_distinct[OF assms(3)] by simp
qed

text \<open>
  In a list sorted by a key, every element of a prefix is at most every element of
  the rest.
\<close>

lemma take_sorted_le_rest:
  assumes "sorted (map f L)" and "x \<in> set (take n L)" and "y \<in> set (drop n L)"
  shows "f x \<le> f y"
proof -
  have "sorted (map f (take n L) @ map f (drop n L))"
    using assms(1) by (metis append_take_drop_id map_append)
  then show ?thesis using assms(2,3) by (auto simp: sorted_append)
qed

text \<open>
  The clean-up of a store with distinct keys and at least ten positions that are not
  active removes ten of them, all not active, none newer than a remaining one that is
  not active.
\<close>

lemma oldest_closed_removed:
  assumes d: "distinct (map fst xs)"
    and closed: "10 \<le> length (filter (\<lambda>e. status (snd e) \<noteq> Active) xs)"
  shows "\<exists>removed. length removed = 10 \<and> distinct removed
        \<and> set removed \<subseteq> set xs
        \<and> (\<forall>e \<in> set removed. status (snd e) \<noteq> Active)
        \<and> cleanupOldPositions xs = filter (\<lambda>e. e \<notin> set removed) xs
        \<and> (\<forall>e \<in> set removed. \<forall>e' \<in> set (cleanupOldPositions xs).
              status (snd e') \<noteq> Active \<longrightarrow> buyTimestamp (snd e) \<le> buyTimestamp (snd e'))"
proof -
  define L where "L = sort_key (\<lambda>e. buyTimestamp (snd e)) (filter (\<lambda>e. status (snd e) \<noteq> Active) xs)"
  define rs where "rs = take 10 L"
  have Leq: "filter (\<lambda>e. status (snd e) \<noteq> Active) (sort_key (\<lambda>e. buyTimestamp (snd e)) xs) = L"
    by (simp add: L_def filter_sort)
  have setL: "set L = {e \<in> set xs. status (snd e) \<noteq> Active}" by (auto simp: L_def)
  have lenL: "10 \<le> length L" using closed by (simp add: L_def)
  have dxs: "distinct xs" using d by (simp add: distinct_map)
  have len: "length rs = 10" using lenL by (simp add: rs_def)
  have drs: "distinct rs" using dxs by (simp add: rs_def L_def)
  have sub: "set rs \<subseteq> set L" by (simp add: rs_def set_take_subset)
  have keys: "\<And>e. e \<in> set xs \<Longrightarrow> (fst e \<in> fst ` set rs) = (e \<in> set rs)"
  proof
    fix e assume e: "e \<in> set xs" and "fst e \<in> fst ` set rs"
    then obtain r where r: "r \<in> set rs" "fst r = fst e" by auto
    then have "r \<in> set xs" using sub setL by auto
    with d e r(2) have "r = e" by (metis eq_key_imp_eq_value prod.collapse)
    with r(1) show "e \<in> set rs" by simp
  next
    fix e assume "e \<in> set rs" then show "fst e \<in> fst ` set rs" by simp
  qed
  have cl: "cleanupOldPositions xs = filter (\<lambda>e. e \<notin> set rs) xs"
    unfolding cleanupOldPositions_filter Leq rs_def[symmetric]
    by (rule filter_cong) (simp_all add: keys)
  have ord: "\<forall>e \<in> set rs. \<forall>e' \<in> set (cleanupOldPositions xs).
              status (snd e') \<noteq> Active \<longrightarrow> buyTimestamp (snd e) \<le> buyTimestamp (snd e')"
  proof (intro ballI impI)
    fix e e' assume e: "e \<in> set rs" and e': "e' \<in> set (cleanupOldPositions xs)"
      and st: "status (snd e') \<noteq> Active"
    from e' cl have "e' \<in> set xs" "e' \<notin> set rs" by auto
    with st have "e' \<in> set L" using setL by simp
    then have "e' \<in> set (take 10 L) \<union> set (drop 10 L)"
      by (metis append_take_drop_id set_append)
    with \<open>e' \<notin> set rs\<close> have "e' \<in> set (drop 10 L)" by (simp add: rs_def)
    moreover have "sorted (map (\<lambda>e. buyTimestamp (snd e)) L)" by (simp add: L_def)
    ultimately show "buyTimestamp (snd e) \<le> buyTimestamp (snd e')"
      using e take_sorted_le_rest[of "\<lambda>e. buyTimestamp (snd e)" L e 10 e'] by (simp add: rs_def)
  qed
  show ?thesis
    using len drs sub setL cl ord by (intro exI[of _ rs]) auto
qed

lemma status_newPosition: "status (newPosition now m symb price amount sg) = Active"
  by (simp add: newPosition_def)

text \<open>
  Claim C6. The store has distinct keys (it is a \<open>Map\<close>). If the token id is new and
  the store already holds \<open>maxPositions\<close> = 50 positions or more, so that the new one
  brings the total above the ceiling, and at least ten stored positions are closed
  (not active), then \<open>addPosition\<close> removes exactly ten positions: they are
  distinct entries of the old store, all closed, and each was bought no later than
  every closed position that remains (the ten oldest closed ones); every active
  position of the old store is kept, whatever its age, and what remains is otherwise
  the old store with the new position at the end. If the total after the
  \<open>Map.set\<close> does not exceed 50, the clean-up does not run and nothing is removed.
\<close>

theorem addPosition_eviction:
  assumes d: "distinct (map fst ps)"
  shows "(m \<notin> fst ` set ps \<and> maxPositions \<le> length ps
          \<and> 10 \<le> length (filter (\<lambda>e. status (snd e) \<noteq> Active) ps) \<longrightarrow>
          (\<exists>removed. length removed = 10 \<and> distinct removed
            \<and> set removed \<subseteq> set ps
            \<and> (\<forall>e \<in> set removed. status (snd e) \<noteq> Active)
            \<and> addPosition now m symb price amount sg ps
                = filter (\<lambda>e. e \<notin> set removed) (ps @ [(m, newPosition now m symb price amount sg)])
            \<and> (\<forall>e \<in> set removed. \<forall>e' \<in> set (addPosition now m symb price amount sg ps).
                  status (snd e') \<noteq> Active \<longrightarrow> buyTimestamp (snd e) \<le> buyTimestamp (snd e'))
            \<and> (\<forall>e \<in> set ps. status (snd e) = Active \<longrightarrow>
                  e \<in> set (addPosition now m symb price amount sg ps))))
       \<and> (length (AList.update m (newPosition now m symb price amount sg) ps) \<le> maxPositions \<longrightarrow>
            addPosition now m symb price amount sg ps
              = AList.update m (newPosition now m symb price amount sg) ps)"
proof (intro conjI impI)
  define new where "new = newPosition now m symb price amount sg"
  define xs where "xs = ps @ [(m, new)]"
  {
    assume "length (AList.update m (newPosition now m symb price amount sg) ps) \<le> maxPositions"
    then show "addPosition now m symb price amount sg ps
              = AList.update m (newPosition now m symb price amount sg) ps"
      by (simp add: addPosition_def Let_def)
  }
  assume h: "m \<notin> fst ` set ps \<and> maxPositions \<le> length ps
          \<and> 10 \<le> length (filter (\<lambda>e. status (snd e) \<noteq> Active) ps)"
  then have fresh: "m \<notin> fst ` set ps" by simp
  have upd: "AList.update m new ps = xs"
    using fresh by (simp add: xs_def update_fresh_append)
  have add: "addPosition now m symb price amount sg ps = cleanupOldPositions xs"
    using h upd by (simp add: addPosition_def Let_def new_def[symmetric] xs_def)
  have dx: "distinct (map fst xs)" using d fresh by (simp add: xs_def)
  have act: "status new = Active" by (simp add: new_def status_newPosition)
  have cx: "10 \<le> length (filter (\<lambda>e. status (snd e) \<noteq> Active) xs)"
    using h act by (simp add: xs_def)
  obtain removed where r: "length removed = 10" "distinct removed" "set removed \<subseteq> set xs"
      "\<forall>e \<in> set removed. status (snd e) \<noteq> Active"
      "cleanupOldPositions xs = filter (\<lambda>e. e \<notin> set removed) xs"
      "\<forall>e \<in> set removed. \<forall>e' \<in> set (cleanupOldPositions xs).
              status (snd e') \<noteq> Active \<longrightarrow> buyTimestamp (snd e) \<le> buyTimestamp (snd e')"
    using oldest_closed_removed[OF dx cx] by blast
  have sub: "set removed \<subseteq> set ps"
  proof
    fix e assume e: "e \<in> set removed"
    with r(3) have "e \<in> set ps \<or> e = (m, new)" by (auto simp: xs_def)
    moreover have "e \<noteq> (m, new)" using e r(4) act by auto
    ultimately show "e \<in> set ps" by simp
  qed
  have keep: "\<forall>e \<in> set ps. status (snd e) = Active \<longrightarrow> e \<in> set (cleanupOldPositions xs)"
    using r(4,5) by (auto simp: xs_def)
  show "\<exists>removed. length removed = 10 \<and> distinct removed
            \<and> set removed \<subseteq> set ps
            \<and> (\<forall>e \<in> set removed. status (snd e) \<noteq> Active)
            \<and> addPosition now m symb price amount sg ps
                = filter (\<lambda>e. e \<notin> set removed) (ps @ [(m, newPosition now m symb price amount sg)])
            \<and> (\<forall>e \<in> set removed. \<forall>e' \<in> set (addPosition now m symb price amount sg ps).
                  status (snd e') \<noteq> Active \<longrightarrow> buyTimestamp (snd e) \<le> buyTimestamp (snd e'))
            \<and> (\<forall>e \<in> set ps. status (snd e) = Active \<longrightarrow>
                  e \<in> set (addPosition now m symb price amount sg ps))"
    unfolding add new_def[symmetric] xs_def[symmetric]
    using r(1,2,4,5,6) sub keep by (intro exI[of _ removed]) simp
qed

text \<open>
  The example store holds fifty positions, twelve of them sold: opening a
  fifty-first removes ten.
\<close>

theorem addPosition_eviction_witness:
  "distinct (map fst example_store) \<and> ''NEW'' \<notin> fst ` set example_store
   \<and> maxPositions \<le> length example_store
   \<and> 10 \<le> length (filter (\<lambda>e. status (snd e) \<noteq> Active) example_store)
   \<and> (\<exists>removed. length removed = 10
         \<and> addPosition 50 ''NEW'' ''NEW'' 1 100 ''sig'' example_store
             = filter (\<lambda>e. e \<notin> set removed)
                 (example_store @ [(''NEW'', newPosition 50 ''NEW'' ''NEW'' 1 100 ''sig'')]))"
proof -
  have h1: "distinct (map fst example_store)" by code_simp
  have h2: "''NEW'' \<notin> fst ` set example_store" by code_simp
  have h3: "maxPositions \<le> length example_store" by code_simp
  have h4: "10 \<le> length (filter (\<lambda>e. status (snd e) \<noteq> Active) example_store)" by code_simp
  show ?thesis
    using addPosition_eviction[OF h1, of "''NEW''" 50 "''NEW''" 1 100 "''sig''"] h1 h2 h3 h4
    by blast
qed

lemma update_same_keys:
  "map_of al k = Some v \<Longrightarrow> map fst (AList.update k v' al) = map fst al"
  by (induction al) (auto split: if_splits)

lemma count_key_distinct:
  "distinct (map fst al) \<Longrightarrow> map_of al k = Some v \<Longrightarrow> length (filter (\<lambda>e. fst e = k) al) = 1"
proof (induction al)
  case Nil
  then show ?case by simp
next
  case (Cons a al)
  show ?case
  proof (cases "fst a = k")
    case True
    then have "k \<notin> fst ` set al" using Cons.prems(1) by auto
    then have "filter (\<lambda>e. fst e = k) al = []" by (auto simp: filter_empty_conv)
    with True show ?thesis by simp
  next
    case False
    with Cons show ?thesis by (cases a) auto
  qed
qed

text \<open>
  Claim C9 as stated fails: closing a position that is already closed is not a no-op.
  The second call replaces the exit reason, the signature and the timestamp of the
  first.
\<close>

theorem closePosition_overwrite_counterexample:
  "closePosition ''A'' Stop_loss (Some ''second_signature'') 20
     (closePosition ''A'' Take_profit (Some ''first_signature'') 10
        [(''A'', example_position ''A'' 0 Active)])
   \<noteq> closePosition ''A'' Take_profit (Some ''first_signature'') 10
        [(''A'', example_position ''A'' 0 Active)]"
  by (simp add: closePosition_def example_position_def)

text \<open>
  Claim C9, amended. \<open>closePosition\<close> for a token id that is absent leaves the store
  unchanged. For a token id that is present, whether the position is active or
  already sold, it sets the status to sold and stamps reason, signature and timestamp
  of this call; no other position changes, and the keys and their order stay.
\<close>

theorem closePosition_effect:
  "(map_of ps m = None \<longrightarrow> closePosition m reason sg now ps = ps)
   \<and> (\<forall>p. map_of ps m = Some p \<longrightarrow>
         map_of (closePosition m reason sg now ps) m
           = Some (p\<lparr>status := Sold, sellReason := Some reason,
                      sellSignature := sg, sellTimestamp := Some now\<rparr>))
   \<and> (\<forall>m'. m' \<noteq> m \<longrightarrow> map_of (closePosition m reason sg now ps) m' = map_of ps m')
   \<and> map fst (closePosition m reason sg now ps) = map fst ps"
  by (auto simp: closePosition_def update_conv' update_same_keys split: option.splits)

text \<open>
  Closing an absent token id changes nothing; closing a sold position stamps the new
  exit fields.
\<close>

theorem closePosition_effect_witness:
  "closePosition ''B'' Manual None 5 [(''A'', example_position ''A'' 0 Sold)]
     = [(''A'', example_position ''A'' 0 Sold)]
   \<and> map_of (closePosition ''A'' Stop_loss (Some ''second_signature'') 20
               [(''A'', example_position ''A'' 0 Sold)]) ''A''
     = Some ((example_position ''A'' 0 Sold)\<lparr>status := Sold, sellReason := Some Stop_loss,
               sellSignature := Some ''second_signature'', sellTimestamp := Some 20\<rparr>)"
  using closePosition_effect[of "[(''A'', example_position ''A'' 0 Sold)]" "''B''" Manual None 5]
    closePosition_effect[of "[(''A'', example_position ''A'' 0 Sold)]" "''A''" Stop_loss
      "Some ''second_signature''" 20]
  by simp

text \<open>
  Claim C2 as stated fails for \<open>addPosition\<close>: a second call for the same token id
  replaces the position of the first call.
\<close>

theorem addPosition_overwrite_counterexample:
  "map_of (addPosition 2 ''A'' ''SECOND'' 2 5 ''second_signature''
             (addPosition 1 ''A'' ''FIRST'' 1 100 ''first_signature'' [])) ''A''
   \<noteq> map_of (addPosition 1 ''A'' ''FIRST'' 1 100 ''first_signature'' []) ''A''"
  by (simp add: addPosition_def newPosition_def maxPositions_def)

text \<open>
  After \<open>addPosition\<close> the store maps the token id to the new position, also when the
  clean-up has run, and its keys are still distinct.
\<close>

lemma addPosition_stores:
  assumes "distinct (map fst ps)"
  shows "map_of (addPosition now m symb price amount sg ps) m
           = Some (newPosition now m symb price amount sg)
       \<and> distinct (map fst (addPosition now m symb price amount sg ps))"
proof -
  define new where "new = newPosition now m symb price amount sg"
  define xs where "xs = AList.update m new ps"
  have dx: "distinct (map fst xs)" using assms by (simp add: xs_def distinct_update)
  have mx: "map_of xs m = Some new" by (simp add: xs_def update_conv')
  have act: "status new = Active" by (simp add: new_def status_newPosition)
  show ?thesis
  proof (cases "length xs > maxPositions")
    case True
    then have "addPosition now m symb price amount sg ps = cleanupOldPositions xs"
      by (simp add: addPosition_def Let_def new_def[symmetric] xs_def[symmetric])
    then show ?thesis
      using map_of_cleanup_active[OF mx act dx] cleanupOldPositions_distinct[OF dx]
      by (simp add: new_def)
  next
    case False
    then have "addPosition now m symb price amount sg ps = xs"
      by (simp add: addPosition_def Let_def new_def[symmetric] xs_def[symmetric])
    then show ?thesis using mx dx by (simp add: new_def)
  qed
qed

text \<open>
  Claim C2, amended. The duplicate check is in \<open>Bot.buy\<close>: called for a token id that
  has a position, \<open>buy\<close> returns at once (\<open>SKIP_DUPLICATE\<close>) and changes nothing but the
  counter of detected pools, so the stored position keeps the fields of the first
  open. \<open>addPosition\<close> itself has no check: on a store with distinct keys it leaves
  exactly one position for the token id, and that is the position built by this
  call, whether or not the token id was present before.
\<close>

theorem open_duplicate:
  "(hasPosition m (positions s) \<longrightarrow>
      buy_step cfg inp m Buy_called s
        = (Returned Skip_duplicate, s\<lparr>tokensDetected := tokensDetected s + 1\<rparr>))
   \<and> (distinct (map fst ps) \<longrightarrow>
        map_of (addPosition now m symb price amount sg ps) m
          = Some (newPosition now m symb price amount sg)
        \<and> length (filter (\<lambda>e. fst e = m) (addPosition now m symb price amount sg ps)) = 1)"
proof (intro conjI impI)
  assume "hasPosition m (positions s)"
  then show "buy_step cfg inp m Buy_called s
        = (Returned Skip_duplicate, s\<lparr>tokensDetected := tokensDetected s + 1\<rparr>)"
    by (simp add: buy_step_def Let_def)
next
  assume d: "distinct (map fst ps)"
  show "map_of (addPosition now m symb price amount sg ps) m
          = Some (newPosition now m symb price amount sg)"
    using addPosition_stores[OF d] by simp
  show "length (filter (\<lambda>e. fst e = m) (addPosition now m symb price amount sg ps)) = 1"
    using addPosition_stores[OF d, of now m symb price amount sg]
    by (intro count_key_distinct) auto
qed

text \<open>
  In the example state, which holds a position for \<open>A\<close>, \<open>buy\<close> for \<open>A\<close> is skipped;
  \<open>addPosition\<close> for \<open>A\<close> on a store that holds \<open>A\<close> stores the new position.
\<close>

theorem open_duplicate_witness:
  "buy_step example_config example_buy_input ''A'' Buy_called example_state
     = (Returned Skip_duplicate, example_state\<lparr>tokensDetected := 1\<rparr>)
   \<and> map_of (addPosition 2 ''A'' ''SECOND'' 2 5 ''second_signature''
               [(''A'', example_position ''A'' 0 Active)]) ''A''
     = Some (newPosition 2 ''A'' ''SECOND'' 2 5 ''second_signature'')"
  using open_duplicate[of "''A''" example_state example_config example_buy_input
      "[(''A'', example_position ''A'' 0 Active)]" 2 "''SECOND''" 2 5 "''second_signature''"]
  by (simp add: hasPosition_def example_state_def)

section \<open>Properties of the sell manager\<close>

text \<open>
  What the sell manager leaves alone: the executor count, the positions of other
  mints, and every watch entry except the one of the condition it is run on, which it
  can only delete.
\<close>

lemma executeSell_executorCalls:
  "executorCalls (executeSell lookup now c reason s) = executorCalls s"
  by (simp add: executeSell_def removeSellCondition_def split: account_lookup.splits)

lemma checkSellCondition_executorCalls:
  "executorCalls (snd (checkSellCondition k inp c s)) = executorCalls s"
  by (simp add: checkSellCondition_def Let_def executeSell_executorCalls split: option.splits)





lemma executeSell_conditions:
  "sellConditions (executeSell lookup now c reason s) = sellConditions s
   \<or> sellConditions (executeSell lookup now c reason s) = AList.delete (cond_mint c) (sellConditions s)"
  by (simp add: executeSell_def removeSellCondition_def split: account_lookup.splits)

lemma checkSellCondition_conditions:
  "sellConditions (snd (checkSellCondition k inp c s)) = sellConditions s
   \<or> sellConditions (snd (checkSellCondition k inp c s)) = AList.delete (cond_mint c) (sellConditions s)"
proof -
  have A: "\<And>r s1. sellConditions s1 = sellConditions s \<Longrightarrow>
      sellConditions (executeSell (accountLookup inp) (closeTime inp) c r s1) = sellConditions s
      \<or> sellConditions (executeSell (accountLookup inp) (closeTime inp) c r s1)
          = AList.delete (cond_mint c) (sellConditions s)"
    by (simp add: executeSell_def removeSellCondition_def split: account_lookup.splits)
  show ?thesis
  proof (cases "TTL_MINUTES k \<le> elapsedMinutes inp c")
    case True
    then show ?thesis using A[of s Ttl] by (simp add: checkSellCondition_def)
  next
    case False
    show ?thesis
    proof (cases "fetchedPrice inp")
      case None
      with False show ?thesis by (simp add: checkSellCondition_def)
    next
      case (Some price)
      define s1 where "s1 = s\<lparr>positions := updatePosition (cond_mint c) price
          (price * buyAmount (cond_position c)) (positions s)\<rparr>"
      have s1: "sellConditions s1 = sellConditions s" by (simp add: s1_def)
      show ?thesis
        using False Some A[OF s1, of Take_profit] A[OF s1, of Stop_loss] s1
        by (simp add: checkSellCondition_def Let_def s1_def[symmetric])
    qed
  qed
qed

lemma checkSellCondition_keys:
  "fst ` set (sellConditions (snd (checkSellCondition k inp c s))) \<subseteq> fst ` set (sellConditions s)"
proof (cases "sellConditions (snd (checkSellCondition k inp c s)) = sellConditions s")
  case True
  then show ?thesis by simp
next
  case False
  then have "sellConditions (snd (checkSellCondition k inp c s))
      = AList.delete (cond_mint c) (sellConditions s)"
    using checkSellCondition_conditions[of k inp c s] by simp
  then show ?thesis by (simp add: dom_delete_subset)
qed

lemma fold_check_keys:
  "fst ` set (sellConditions (fold (\<lambda>c acc. snd (checkSellCondition k (inputs (cond_mint c)) c acc)) cs s))
     \<subseteq> fst ` set (sellConditions s)"
proof (induction cs arbitrary: s)
  case Nil
  then show ?case by simp
next
  case (Cons c cs)
  let ?s1 = "snd (checkSellCondition k (inputs (cond_mint c)) c s)"
  have "fst ` set (sellConditions ?s1) \<subseteq> fst ` set (sellConditions s)"
    by (rule checkSellCondition_keys)
  with Cons.IH[of ?s1] show ?case by (simp only: fold_Cons comp_apply)
qed



















section \<open>Single-flight acquisition\<close>









section \<open>The pool size check\<close>

text \<open>
  Claim C8, the code at two failing inputs. With the default bounds 1 and 100 a pool
  of 50 quote tokens is rejected, because the string \<open>100\<close> is smaller than the string
  \<open>50\<close>; with a minimum of 10 and no maximum a pool of 9 quote tokens passes, because
  the string \<open>9\<close> is not smaller than the string \<open>10\<close>.
\<close>

theorem checkPoolSize_compares_strings:
  "ok (checkPoolSize 1 100 9 (Some 50000000000)) = False
   \<and> (1::real) \<le> poolSizeNumber 9 50000000000 \<and> poolSizeNumber 9 50000000000 \<le> 100
   \<and> ok (checkPoolSize 10 0 9 (Some 9000000000)) = True
   \<and> poolSizeNumber 9 9000000000 < 10"
  by (simp add: checkPoolSize_def toExact_def digit_char_def poolSizeNumber_def)

end
